theory Spec2Isabelle
  imports Main "HOL-Library.Word"
begin

section \<open>Strings of the Go standard library used by db.go\<close>

text \<open>
  A Go string is a sequence of bytes, modelled as \<^typ>\<open>string\<close>.  The source calls
  \<^verbatim>\<open>strings.Contains\<close>, \<^verbatim>\<open>strings.Join\<close>, \<^verbatim>\<open>strings.ReplaceAll\<close> and
  \<^verbatim>\<open>strings.Split\<close>; the last two only with a separator of one byte, which is how
  they are modelled.  \<^verbatim>\<open>fmt.Sprintf\<close> with \<^verbatim>\<open>%s\<close> is concatenation.
\<close>

fun HasPrefix :: "string \<Rightarrow> string \<Rightarrow> bool" where
  "HasPrefix s [] = True"
| "HasPrefix [] (p # ps) = False"
| "HasPrefix (c # cs) (p # ps) = (c = p \<and> HasPrefix cs ps)"

fun Contains :: "string \<Rightarrow> string \<Rightarrow> bool" where
  "Contains [] substr = HasPrefix [] substr"
| "Contains (c # cs) substr = (HasPrefix (c # cs) substr \<or> Contains cs substr)"

fun Join :: "string list \<Rightarrow> string \<Rightarrow> string" where
  "Join [] sep = []"
| "Join [e] sep = e"
| "Join (e # e' # es) sep = e @ sep @ Join (e' # es) sep"

definition ReplaceAll :: "string \<Rightarrow> char \<Rightarrow> string" where
  \<comment> \<open>\<^verbatim>\<open>strings.ReplaceAll(s, old, "")\<close> for a one-byte \<^verbatim>\<open>old\<close>\<close>
  "ReplaceAll s old = filter (\<lambda>c. c \<noteq> old) s"

fun Split :: "string \<Rightarrow> char \<Rightarrow> string list" where
  \<comment> \<open>\<^verbatim>\<open>strings.Split(s, sep)\<close> for a one-byte \<^verbatim>\<open>sep\<close>; the empty string gives one
      empty segment\<close>
  "Split [] sep = [[]]"
| "Split (c # cs) sep =
     (if c = sep then [] # Split cs sep
      else (case Split cs sep of
              [] \<Rightarrow> [[c]]
            | seg # segs \<Rightarrow> (c # seg) # segs))"

subsection \<open>The verb \<^verbatim>\<open>%q\<close>\<close>

text \<open>
  \<^verbatim>\<open>fmt.Sprintf("%q", name)\<close> is \<^verbatim>\<open>strconv.Quote\<close>: a double quote, the escaped
  bytes of the name, a double quote.  A double quote and a backslash are written
  with a backslash before them, every other printable ASCII byte (0x20 to 0x7E) is
  written as it is.  What the standard library writes for a rune that starts with
  any other byte (control characters, UTF-8 sequences, invalid bytes), and how
  many bytes that rune takes, depends on its Unicode tables and is a parameter of
  the model: an \<open>escaper\<close> maps the rest of the string to the text written and the
  width of the rune consumed.
\<close>

type_synonym escaper = "string \<Rightarrow> string \<times> nat"

definition dquote :: char where
  "dquote = CHR 0x22"

definition backslash :: char where
  "backslash = CHR 0x5C"

definition backtick :: char where
  "backtick = CHR 0x60"

definition printableASCII :: "char \<Rightarrow> bool" where
  "printableASCII c = (0x20 \<le> (of_char c :: nat) \<and> (of_char c :: nat) \<le> 0x7E)"

fun appendQuoted :: "escaper \<Rightarrow> nat \<Rightarrow> string \<Rightarrow> string" where
  \<comment> \<open>the second argument counts the bytes still to skip of a rune already written\<close>
  "appendQuoted esc skip [] = []"
| "appendQuoted esc (Suc skip) (c # cs) = appendQuoted esc skip cs"
| "appendQuoted esc 0 (c # cs) =
     (if c = dquote \<or> c = backslash then backslash # c # appendQuoted esc 0 cs
      else if printableASCII c then c # appendQuoted esc 0 cs
      else (case esc (c # cs) of
              (out, width) \<Rightarrow> out @ appendQuoted esc (width - 1) cs))"

definition Quote :: "escaper \<Rightarrow> string \<Rightarrow> string" where
  "Quote esc s = dquote # appendQuoted esc 0 s @ [dquote]"

text \<open>
  A sample escaper, used where a concrete one is needed: every byte outside
  printable ASCII is a rune of width one written as \<^verbatim>\<open>\x\<close> and two hex digits, which is
  what Go does with a byte that is not valid UTF-8.
\<close>

definition lowerhex :: "nat \<Rightarrow> char" where
  "lowerhex n = ''0123456789abcdef'' ! (n mod 16)"

definition hexEscaper :: escaper where
  "hexEscaper s =
     (case s of
        [] \<Rightarrow> ([], 1)
      | c # cs \<Rightarrow> ([backslash, CHR ''x'', lowerhex (of_char c div 16), lowerhex (of_char c mod 16)], 1))"

section \<open>Dialects and the identifier quoter\<close>

definition driverMysql :: string where
  "driverMysql = ''mysql''"

definition driverPostgres :: string where
  "driverPostgres = ''postgres''"

definition driverSqlite3 :: string where
  "driverSqlite3 = ''sqlite3''"

definition driverAlias :: "string \<rightharpoonup> string" where
  "driverAlias = [''pgx'' \<mapsto> driverPostgres]"

definition quoteColumn :: "escaper \<Rightarrow> string \<Rightarrow> string \<Rightarrow> string" where
  "quoteColumn esc name driver =
     (if driver = driverMysql then [backtick] @ name @ [backtick]
      else Quote esc name)"

definition quoteSegment :: "char \<Rightarrow> string \<Rightarrow> string" where
  \<comment> \<open>the body of the loop of quoteIdentifier\<close>
  "quoteSegment symbol s = (if s \<noteq> ''*'' then [symbol] @ s @ [symbol] else s)"

fun quoteSegments :: "char \<Rightarrow> string list \<Rightarrow> string list \<Rightarrow> string list" where
  \<comment> \<open>the loop of quoteIdentifier over the segments, \<open>result\<close> its accumulator\<close>
  "quoteSegments symbol [] result = result"
| "quoteSegments symbol (s # segs) result =
     quoteSegments symbol segs (result @ [quoteSegment symbol s])"

definition quoteIdentifier :: "string \<Rightarrow> string \<Rightarrow> string" where
  "quoteIdentifier name driver =
     (let symbol = (if driver = driverMysql then backtick else dquote);
          name' = ReplaceAll name symbol
      in Join (quoteSegments symbol (Split name' (CHR ''.'')) []) ''.'')"

section \<open>Metadata\<close>

text \<open>
  The descriptors come from the metadata subsystem; db.go reads these fields of
  them.  \<open>Type\<close> is the \<^verbatim>\<open>reflect.Type\<close> of the entity, the key of every cache.
\<close>

record Column =
  DBField :: string
  AutoIncrement :: bool
  ReturningInsert :: bool
  ReturningUpdate :: bool
  RefuseUpdate :: bool

record 't Metadata =
  Type :: 't
  TableName :: string
  Columns :: "Column list"
  PrimaryKeys :: "Column list"
  hasReturningInsert :: bool
  hasReturningUpdate :: bool

section \<open>Statement builders\<close>

text \<open>
  Each \<^verbatim>\<open>for ... range\<close> loop is a recursive function over the slice with the
  variables the loop assigns as accumulators.  The builders take the entity as the
  source does and, as the source, never look at it.
\<close>

fun selectColumns :: "escaper \<Rightarrow> string \<Rightarrow> Column list \<Rightarrow> string list \<Rightarrow> string list" where
  "selectColumns esc driver [] columns = columns"
| "selectColumns esc driver (col # cols) columns =
     selectColumns esc driver cols (columns @ [quoteColumn esc (DBField col) driver])"

fun primaryKeyLoop ::
  "escaper \<Rightarrow> string \<Rightarrow> string \<Rightarrow> nat \<Rightarrow> Column list \<Rightarrow> string \<Rightarrow> string" where
  \<comment> \<open>the loop over \<open>md.PrimaryKeys\<close> with its index \<open>i\<close>; \<open>first\<close> is the text put before
      the first predicate: a space in select and delete, \<^verbatim>\<open> WHERE \<close> in update\<close>
  "primaryKeyLoop esc driver first i [] stmt = stmt"
| "primaryKeyLoop esc driver first i (col # cols) stmt =
     primaryKeyLoop esc driver first (Suc i) cols
       (if i = 0 then stmt @ first @ quoteColumn esc (DBField col) driver @ '' = :'' @ DBField col
        else stmt @ '' AND '' @ quoteColumn esc (DBField col) driver @ '' = :'' @ DBField col)"

definition selectStatement :: "escaper \<Rightarrow> 'e \<Rightarrow> 't Metadata \<Rightarrow> string \<Rightarrow> string" where
  "selectStatement esc ent md driver =
     (let columns = selectColumns esc driver (Columns md) [];
          stmt = ''SELECT '' @ Join columns '', '' @ '' FROM ''
                   @ quoteIdentifier (TableName md) driver @ '' WHERE'';
          stmt = primaryKeyLoop esc driver '' '' 0 (PrimaryKeys md) stmt
      in stmt @ '' LIMIT 1'')"

fun insertColumns ::
  "escaper \<Rightarrow> string \<Rightarrow> Column list \<Rightarrow> string list \<times> string list \<times> string list
     \<Rightarrow> string list \<times> string list \<times> string list" where
  \<comment> \<open>the accumulator is (columns, returnings, placeholder)\<close>
  "insertColumns esc driver [] acc = acc"
| "insertColumns esc driver (col # cols) (columns, returnings, placeholder) =
     (let c = quoteColumn esc (DBField col) driver
      in insertColumns esc driver cols
           (if ReturningInsert col then (columns, returnings @ [c], placeholder)
            else if \<not> AutoIncrement col
              then (columns @ [c], returnings, placeholder @ ['':'' @ DBField col])
            else (columns, returnings, placeholder)))"

definition insertStatement :: "escaper \<Rightarrow> 'e \<Rightarrow> 't Metadata \<Rightarrow> string \<Rightarrow> string" where
  "insertStatement esc ent md driver =
     (case insertColumns esc driver (Columns md) ([], [], []) of
        (columns, returnings, placeholder) \<Rightarrow>
          (let stmt = ''INSERT INTO '' @ quoteIdentifier (TableName md) driver
                        @ '' ('' @ Join columns '', '' @ '') VALUES (''
                        @ Join placeholder '', '' @ '')''
           in if length returnings > 0
              then stmt @ '' RETURNING '' @ Join returnings '', ''
              else stmt))"

fun updateColumns ::
  "escaper \<Rightarrow> string \<Rightarrow> Column list \<Rightarrow> string list \<times> string \<times> bool
     \<Rightarrow> string list \<times> string \<times> bool" where
  \<comment> \<open>the accumulator is (returnings, stmt, set); the flag \<open>set\<close> is \<open>isSet\<close> here\<close>
  "updateColumns esc driver [] acc = acc"
| "updateColumns esc driver (col # cols) (returnings, stmt, isSet) =
     updateColumns esc driver cols
       (if ReturningUpdate col
          then (returnings @ [quoteColumn esc (DBField col) driver], stmt, isSet)
        else if \<not> RefuseUpdate col
          then (if isSet
                then (returnings,
                      stmt @ '', '' @ quoteColumn esc (DBField col) driver @ '' = :'' @ DBField col,
                      isSet)
                else (returnings,
                      stmt @ '' '' @ quoteColumn esc (DBField col) driver @ '' = :'' @ DBField col,
                      True))
        else (returnings, stmt, isSet))"

definition updateStatement :: "escaper \<Rightarrow> 'e \<Rightarrow> 't Metadata \<Rightarrow> string \<Rightarrow> string" where
  "updateStatement esc ent md driver =
     (case updateColumns esc driver (Columns md)
             ([], ''UPDATE '' @ quoteIdentifier (TableName md) driver @ '' SET'', False) of
        (returnings, stmt, isSet) \<Rightarrow>
          (let stmt = primaryKeyLoop esc driver '' WHERE '' 0 (PrimaryKeys md) stmt
           in if length returnings > 0
              then stmt @ '' RETURNING '' @ Join returnings '', ''
              else stmt))"

definition deleteStatement :: "escaper \<Rightarrow> 'e \<Rightarrow> 't Metadata \<Rightarrow> string \<Rightarrow> string" where
  "deleteStatement esc ent md driver =
     primaryKeyLoop esc driver '' '' 0 (PrimaryKeys md)
       (''DELETE FROM '' @ quoteIdentifier (TableName md) driver @ '' WHERE'')"

section \<open>Errors, the database handle and the statement caches\<close>

text \<open>
  A Go \<^verbatim>\<open>error\<close> value is an \<open>error option\<close>, \<open>None\<close> for \<^verbatim>\<open>nil\<close>.
  \<^verbatim>\<open>fmt.Errorf\<close> builds a new error whatever its operand is, so \<open>Errorf\<close> takes the
  operand of \<^verbatim>\<open>%w\<close> as an \<open>error option\<close>: wrapping \<^verbatim>\<open>nil\<close> still gives an error.
\<close>

datatype error =
    ErrNoRows
  | Errorf string "error option"
  | DriverError string

fun Error :: "error \<Rightarrow> string" where
  "Error ErrNoRows = ''sql: no rows in result set''"
| "Error (Errorf msg None) = msg @ ''%!w(<nil>)''"
| "Error (Errorf msg (Some err)) = msg @ Error err"
| "Error (DriverError msg) = msg"

type_synonym int64 = "64 word"

record Result =
  LastInsertId :: "int64 \<times> error option"
  RowsAffected :: "int64 \<times> error option"

record 'e Rows =
  Next :: bool
  StructScan :: "'e \<Rightarrow> error option \<times> 'e"
  Err :: "error option"

text \<open>
  The handle answers a statement and an entity with an error or with rows (a
  query) or a result (a command).  The context of the source is passed through to
  the handle and is part of how the handle answers.
\<close>

record 'e DB =
  DriverName :: string
  NamedQueryContext :: "string \<Rightarrow> 'e \<Rightarrow> error + 'e Rows"
  NamedExecContext :: "string \<Rightarrow> 'e \<Rightarrow> error + Result"

record 't Statements =
  selectStatements :: "'t \<rightharpoonup> string"
  insertStatements :: "'t \<rightharpoonup> string"
  updateStatements :: "'t \<rightharpoonup> string"
  deleteStatements :: "'t \<rightharpoonup> string"

definition dbDriver :: "'e DB \<Rightarrow> string" where
  "dbDriver db =
     (let dv = DriverName db
      in case driverAlias dv of Some v \<Rightarrow> v | None \<Rightarrow> dv)"

definition isConflictError :: "'e DB \<Rightarrow> error \<Rightarrow> bool" where
  "isConflictError db err =
     (let driver = dbDriver db; s = Error err
      in if driver = driverPostgres
           then Contains s ''duplicate key value violates unique constraint''
         else if driver = driverMysql then Contains s ''Duplicate entry''
         else if driver = driverSqlite3 then Contains s ''UNIQUE constraint failed''
         else False)"

section \<open>The execution protocol\<close>

text \<open>
  The package-level maps are a state that every operation takes and returns.  The
  first lines of each operation, which look the statement up under \<open>md.Type\<close> and
  build and store it when it is missing, are a function of their own here; it
  returns the statement and the maps.  \<open>getMetadata\<close> lives in another file and is
  a parameter.  The entity is a pointer in the source; \<open>StructScan\<close> writes to it,
  so every operation also returns the entity.
\<close>

definition loadStatement ::
  "escaper \<Rightarrow> 't Statements \<Rightarrow> 'e \<Rightarrow> 't Metadata \<Rightarrow> 'e DB \<Rightarrow> string \<times> 't Statements" where
  "loadStatement esc st ent md db =
     (case selectStatements st (Type md) of
        Some stmt \<Rightarrow> (stmt, st)
      | None \<Rightarrow>
          (let stmt = selectStatement esc ent md (dbDriver db)
           in (stmt, st\<lparr>selectStatements := (selectStatements st)(Type md \<mapsto> stmt)\<rparr>)))"

definition insertStatementOf ::
  "escaper \<Rightarrow> 't Statements \<Rightarrow> 'e \<Rightarrow> 't Metadata \<Rightarrow> 'e DB \<Rightarrow> string \<times> 't Statements" where
  "insertStatementOf esc st ent md db =
     (case insertStatements st (Type md) of
        Some stmt \<Rightarrow> (stmt, st)
      | None \<Rightarrow>
          (let stmt = insertStatement esc ent md (dbDriver db)
           in (stmt, st\<lparr>insertStatements := (insertStatements st)(Type md \<mapsto> stmt)\<rparr>)))"

definition updateStatementOf ::
  "escaper \<Rightarrow> 't Statements \<Rightarrow> 'e \<Rightarrow> 't Metadata \<Rightarrow> 'e DB \<Rightarrow> string \<times> 't Statements" where
  "updateStatementOf esc st ent md db =
     (case updateStatements st (Type md) of
        Some stmt \<Rightarrow> (stmt, st)
      | None \<Rightarrow>
          (let stmt = updateStatement esc ent md (dbDriver db)
           in (stmt, st\<lparr>updateStatements := (updateStatements st)(Type md \<mapsto> stmt)\<rparr>)))"

definition deleteStatementOf ::
  "escaper \<Rightarrow> 't Statements \<Rightarrow> 'e \<Rightarrow> 't Metadata \<Rightarrow> 'e DB \<Rightarrow> string \<times> 't Statements" where
  "deleteStatementOf esc st ent md db =
     (case deleteStatements st (Type md) of
        Some stmt \<Rightarrow> (stmt, st)
      | None \<Rightarrow>
          (let stmt = deleteStatement esc ent md (dbDriver db)
           in (stmt, st\<lparr>deleteStatements := (deleteStatements st)(Type md \<mapsto> stmt)\<rparr>)))"

definition scanRow :: "'e Rows \<Rightarrow> 'e \<Rightarrow> error option \<times> 'e" where
  \<comment> \<open>\<^verbatim>\<open>rows.Next\<close>, \<^verbatim>\<open>rows.StructScan\<close>, \<^verbatim>\<open>rows.Err\<close>: the same lines in doLoad, doInsert
      and doUpdate\<close>
  "scanRow rows ent =
     (if \<not> Next rows then (Some ErrNoRows, ent)
      else (case StructScan rows ent of
              (Some err, ent') \<Rightarrow> (Some (Errorf ''scan struct, '' (Some err)), ent')
            | (None, ent') \<Rightarrow> (Err rows, ent')))"

definition doLoad ::
  "('e \<Rightarrow> error + 't Metadata) \<Rightarrow> escaper \<Rightarrow> 't Statements \<Rightarrow> 'e \<Rightarrow> 'e DB
     \<Rightarrow> error option \<times> 'e \<times> 't Statements" where
  "doLoad getMetadata esc st ent db =
     (case getMetadata ent of
        Inl err \<Rightarrow> (Some (Errorf ''get metadata, '' (Some err)), ent, st)
      | Inr md \<Rightarrow>
          (case loadStatement esc st ent md db of
             (stmt, st') \<Rightarrow>
               (case NamedQueryContext db stmt ent of
                  Inl err \<Rightarrow> (Some err, ent, st')
                | Inr rows \<Rightarrow>
                    (case scanRow rows ent of (err, ent') \<Rightarrow> (err, ent', st')))))"

definition doInsert ::
  "('e \<Rightarrow> error + 't Metadata) \<Rightarrow> escaper \<Rightarrow> 't Statements \<Rightarrow> 'e \<Rightarrow> 'e DB
     \<Rightarrow> (int64 \<times> error option) \<times> 'e \<times> 't Statements" where
  "doInsert getMetadata esc st ent db =
     (case getMetadata ent of
        Inl err \<Rightarrow> ((0, Some (Errorf ''get metadata, '' (Some err))), ent, st)
      | Inr md \<Rightarrow>
          (case insertStatementOf esc st ent md db of
             (stmt, st') \<Rightarrow>
               if hasReturningInsert md then
                 (case NamedQueryContext db stmt ent of
                    Inl err \<Rightarrow> ((0, Some err), ent, st')
                  | Inr rows \<Rightarrow>
                      (case scanRow rows ent of (err, ent') \<Rightarrow> ((0, err), ent', st')))
               else
                 (case NamedExecContext db stmt ent of
                    Inl err \<Rightarrow> ((0, Some err), ent, st')
                  | Inr result \<Rightarrow>
                      if dbDriver db = driverPostgres then ((0, None), ent, st')
                      else (case LastInsertId result of
                              (lastID, err) \<Rightarrow>
                                ((lastID, Some (Errorf ''get last insert id, '' err)), ent, st')))))"

definition doUpdate ::
  "('e \<Rightarrow> error + 't Metadata) \<Rightarrow> escaper \<Rightarrow> 't Statements \<Rightarrow> 'e \<Rightarrow> 'e DB
     \<Rightarrow> error option \<times> 'e \<times> 't Statements" where
  "doUpdate getMetadata esc st ent db =
     (case getMetadata ent of
        Inl err \<Rightarrow> (Some (Errorf ''get metadata, '' (Some err)), ent, st)
      | Inr md \<Rightarrow>
          (case updateStatementOf esc st ent md db of
             (stmt, st') \<Rightarrow>
               if hasReturningUpdate md then
                 (case NamedQueryContext db stmt ent of
                    Inl err \<Rightarrow> (Some err, ent, st')
                  | Inr rows \<Rightarrow>
                      (case scanRow rows ent of (err, ent') \<Rightarrow> (err, ent', st')))
               else
                 (case NamedExecContext db stmt ent of
                    Inl err \<Rightarrow> (Some err, ent, st')
                  | Inr result \<Rightarrow>
                      (case RowsAffected result of
                         (n, Some err) \<Rightarrow> (Some (Errorf ''get affected rows, '' (Some err)), ent, st')
                       | (n, None) \<Rightarrow>
                           if n = 0 then (Some ErrNoRows, ent, st') else (None, ent, st')))))"

definition doDelete ::
  "('e \<Rightarrow> error + 't Metadata) \<Rightarrow> escaper \<Rightarrow> 't Statements \<Rightarrow> 'e \<Rightarrow> 'e DB
     \<Rightarrow> error option \<times> 'e \<times> 't Statements" where
  "doDelete getMetadata esc st ent db =
     (case getMetadata ent of
        Inl err \<Rightarrow> (Some (Errorf ''get metadata, '' (Some err)), ent, st)
      | Inr md \<Rightarrow>
          (case deleteStatementOf esc st ent md db of
             (stmt, st') \<Rightarrow>
               (case NamedExecContext db stmt ent of
                  Inl err \<Rightarrow> (Some err, ent, st')
                | Inr result \<Rightarrow> (None, ent, st'))))"

section \<open>Closed forms and sample inputs\<close>

text \<open>
  The text of one equality predicate or SET item, \<^verbatim>\<open><col> = :<field>\<close>, as the four
  \<^verbatim>\<open>Sprintf\<close> calls of the builders write it after their separator.
\<close>

definition equality :: "escaper \<Rightarrow> string \<Rightarrow> Column \<Rightarrow> string" where
  "equality esc driver col = quoteColumn esc (DBField col) driver @ '' = :'' @ DBField col"

text \<open>
  The entity of the spec's scenario: an account with an auto-increment key, an
  email, and a creation time that is never updated; \<open>account\<close> has the time
  returned by the insert, \<open>plainAccount\<close> has no returning column.  \<open>tenantAccount\<close>
  has a key of two columns and a schema-qualified table.
\<close>

definition idColumn :: Column where
  "idColumn = \<lparr>DBField = ''id'', AutoIncrement = True, ReturningInsert = False,
               ReturningUpdate = False, RefuseUpdate = True\<rparr>"

definition tenantColumn :: Column where
  "tenantColumn = \<lparr>DBField = ''tenant'', AutoIncrement = False, ReturningInsert = False,
               ReturningUpdate = False, RefuseUpdate = True\<rparr>"

definition emailColumn :: Column where
  "emailColumn = \<lparr>DBField = ''email'', AutoIncrement = False, ReturningInsert = False,
               ReturningUpdate = False, RefuseUpdate = False\<rparr>"

definition createdAtColumn :: Column where
  "createdAtColumn = \<lparr>DBField = ''created_at'', AutoIncrement = False, ReturningInsert = True,
               ReturningUpdate = False, RefuseUpdate = True\<rparr>"

definition versionColumn :: Column where
  "versionColumn = \<lparr>DBField = ''version'', AutoIncrement = False, ReturningInsert = False,
               ReturningUpdate = True, RefuseUpdate = False\<rparr>"

definition account :: "nat Metadata" where
  "account = \<lparr>Type = 1, TableName = ''account'',
               Columns = [idColumn, emailColumn, createdAtColumn],
               PrimaryKeys = [idColumn],
               hasReturningInsert = True, hasReturningUpdate = False\<rparr>"

definition plainAccount :: "nat Metadata" where
  "plainAccount = \<lparr>Type = 2, TableName = ''account'',
               Columns = [idColumn, emailColumn],
               PrimaryKeys = [idColumn],
               hasReturningInsert = False, hasReturningUpdate = False\<rparr>"

definition tenantAccount :: "nat Metadata" where
  "tenantAccount = \<lparr>Type = 3, TableName = ''crm.account'',
               Columns = [tenantColumn, idColumn, emailColumn, versionColumn],
               PrimaryKeys = [tenantColumn, idColumn],
               hasReturningInsert = False, hasReturningUpdate = True\<rparr>"

definition frozenAccount :: "nat Metadata" where
  \<comment> \<open>no column may be set by an update\<close>
  "frozenAccount = \<lparr>Type = 4, TableName = ''account'',
               Columns = [idColumn, versionColumn],
               PrimaryKeys = [idColumn],
               hasReturningInsert = False, hasReturningUpdate = True\<rparr>"

definition noStatements :: "nat Statements" where
  "noStatements = \<lparr>selectStatements = Map.empty, insertStatements = Map.empty,
                    updateStatements = Map.empty, deleteStatements = Map.empty\<rparr>"

text \<open>
  Sample handles over entities of type \<^typ>\<open>unit\<close>: \<open>emptyDB\<close> answers every query
  with no row and every command with a result of the given last-insert-id and
  affected-row count; \<open>echoDB\<close> fails every call with the statement it was given as
  the message, which shows the text that reached the handle.
\<close>

definition emptyDB :: "string \<Rightarrow> int64 \<Rightarrow> int64 \<Rightarrow> unit DB" where
  "emptyDB name lastID n =
     \<lparr>DriverName = name,
      NamedQueryContext = (\<lambda>stmt ent. Inr \<lparr>Next = False, StructScan = (\<lambda>e. (None, e)), Err = None\<rparr>),
      NamedExecContext = (\<lambda>stmt ent. Inr \<lparr>LastInsertId = (lastID, None), RowsAffected = (n, None)\<rparr>)\<rparr>"

definition echoDB :: "string \<Rightarrow> unit DB" where
  "echoDB name =
     \<lparr>DriverName = name,
      NamedQueryContext = (\<lambda>stmt ent. Inl (DriverError stmt)),
      NamedExecContext = (\<lambda>stmt ent. Inl (DriverError stmt))\<rparr>"

text \<open>
  \<^verbatim>\<open>strings.HasSuffix\<close>, to say that a statement ends with a text.
\<close>

definition HasSuffix :: "string \<Rightarrow> string \<Rightarrow> bool" where
  "HasSuffix s suffix =
     (length s \<ge> length suffix \<and> drop (length s - length suffix) s = suffix)"

text \<open>
  What each operation does once it has its statement: the lines of the source
  after the cache lookup, with the statement and the caches given.
\<close>

definition loadWith ::
  "string \<Rightarrow> 'e \<Rightarrow> 'e DB \<Rightarrow> 't Statements \<Rightarrow> error option \<times> 'e \<times> 't Statements" where
  "loadWith stmt ent db st =
     (case NamedQueryContext db stmt ent of
        Inl err \<Rightarrow> (Some err, ent, st)
      | Inr rows \<Rightarrow> (case scanRow rows ent of (err, ent') \<Rightarrow> (err, ent', st)))"

definition insertWith ::
  "string \<Rightarrow> 't Metadata \<Rightarrow> 'e \<Rightarrow> 'e DB \<Rightarrow> 't Statements
     \<Rightarrow> (int64 \<times> error option) \<times> 'e \<times> 't Statements" where
  "insertWith stmt md ent db st =
     (if hasReturningInsert md then
        (case NamedQueryContext db stmt ent of
           Inl err \<Rightarrow> ((0, Some err), ent, st)
         | Inr rows \<Rightarrow> (case scanRow rows ent of (err, ent') \<Rightarrow> ((0, err), ent', st)))
      else
        (case NamedExecContext db stmt ent of
           Inl err \<Rightarrow> ((0, Some err), ent, st)
         | Inr result \<Rightarrow>
             if dbDriver db = driverPostgres then ((0, None), ent, st)
             else (case LastInsertId result of
                     (lastID, err) \<Rightarrow>
                       ((lastID, Some (Errorf ''get last insert id, '' err)), ent, st))))"

definition updateWith ::
  "string \<Rightarrow> 't Metadata \<Rightarrow> 'e \<Rightarrow> 'e DB \<Rightarrow> 't Statements
     \<Rightarrow> error option \<times> 'e \<times> 't Statements" where
  "updateWith stmt md ent db st =
     (if hasReturningUpdate md then
        (case NamedQueryContext db stmt ent of
           Inl err \<Rightarrow> (Some err, ent, st)
         | Inr rows \<Rightarrow> (case scanRow rows ent of (err, ent') \<Rightarrow> (err, ent', st)))
      else
        (case NamedExecContext db stmt ent of
           Inl err \<Rightarrow> (Some err, ent, st)
         | Inr result \<Rightarrow>
             (case RowsAffected result of
                (n, Some err) \<Rightarrow> (Some (Errorf ''get affected rows, '' (Some err)), ent, st)
              | (n, None) \<Rightarrow>
                  if n = 0 then (Some ErrNoRows, ent, st) else (None, ent, st))))"

definition deleteWith ::
  "string \<Rightarrow> 'e \<Rightarrow> 'e DB \<Rightarrow> 't Statements \<Rightarrow> error option \<times> 'e \<times> 't Statements" where
  "deleteWith stmt ent db st =
     (case NamedExecContext db stmt ent of
        Inl err \<Rightarrow> (Some err, ent, st)
      | Inr result \<Rightarrow> (None, ent, st))"

text \<open>
  A caller's later calls: any sequence of the four operations, each on its own
  entity and handle.  \<open>performAll\<close> gives the caches after the sequence.
\<close>

datatype 'e call =
    CallLoad 'e "'e DB"
  | CallInsert 'e "'e DB"
  | CallUpdate 'e "'e DB"
  | CallDelete 'e "'e DB"

fun perform ::
  "('e \<Rightarrow> error + 't Metadata) \<Rightarrow> escaper \<Rightarrow> 't Statements \<Rightarrow> 'e call \<Rightarrow> 't Statements" where
  "perform getMetadata esc st (CallLoad ent db) = snd (snd (doLoad getMetadata esc st ent db))"
| "perform getMetadata esc st (CallInsert ent db) = snd (snd (doInsert getMetadata esc st ent db))"
| "perform getMetadata esc st (CallUpdate ent db) = snd (snd (doUpdate getMetadata esc st ent db))"
| "perform getMetadata esc st (CallDelete ent db) = snd (snd (doDelete getMetadata esc st ent db))"

fun performAll ::
  "('e \<Rightarrow> error + 't Metadata) \<Rightarrow> escaper \<Rightarrow> 't Statements \<Rightarrow> 'e call list \<Rightarrow> 't Statements" where
  "performAll getMetadata esc st [] = st"
| "performAll getMetadata esc st (c # cs) =
     performAll getMetadata esc (perform getMetadata esc st c) cs"

definition grows :: "'t Statements \<Rightarrow> 't Statements \<Rightarrow> bool" where
  \<comment> \<open>every entry of every cache of the first is an entry of the second\<close>
  "grows st st' =
     (selectStatements st \<subseteq>\<^sub>m selectStatements st'
      \<and> insertStatements st \<subseteq>\<^sub>m insertStatements st'
      \<and> updateStatements st \<subseteq>\<^sub>m updateStatements st'
      \<and> deleteStatements st \<subseteq>\<^sub>m deleteStatements st')"

text \<open>
  Two entity types for the samples: the entity \<open>False\<close> is a \<open>plainAccount\<close>, the
  entity \<open>True\<close> a \<open>tenantAccount\<close>; \<open>echoBoolDB\<close> is \<open>echoDB\<close> over these entities.
\<close>

definition sampleMetadata :: "bool \<Rightarrow> error + nat Metadata" where
  "sampleMetadata ent = (if ent then Inr tenantAccount else Inr plainAccount)"

definition echoBoolDB :: "string \<Rightarrow> bool DB" where
  "echoBoolDB name =
     \<lparr>DriverName = name,
      NamedQueryContext = (\<lambda>stmt ent. Inl (DriverError stmt)),
      NamedExecContext = (\<lambda>stmt ent. Inl (DriverError stmt))\<rparr>"

section \<open>Facts about the string functions\<close>

lemma Join_Cons: "Join (x # xs) sep = x @ concat (map (\<lambda>y. sep @ y) xs)"
  by (induction xs arbitrary: x) auto

lemma HasPrefix_iff: "HasPrefix s p \<longleftrightarrow> (\<exists>q. s = p @ q)"
  by (induction s p rule: HasPrefix.induct) auto

lemma Contains_iff: "Contains s sub \<longleftrightarrow> (\<exists>p q. s = p @ sub @ q)"
proof (induction s)
  case Nil
  show ?case by (auto simp: HasPrefix_iff)
next
  case (Cons c cs)
  show ?case
  proof
    assume "Contains (c # cs) sub"
    then consider "HasPrefix (c # cs) sub" | "Contains cs sub" by auto
    then show "\<exists>p q. c # cs = p @ sub @ q"
    proof cases
      case 1
      then obtain q where "c # cs = sub @ q" by (auto simp: HasPrefix_iff)
      then have "c # cs = [] @ sub @ q" by simp
      then show ?thesis by blast
    next
      case 2
      then obtain p q where "cs = p @ sub @ q" using Cons.IH by auto
      then have "c # cs = (c # p) @ sub @ q" by simp
      then show ?thesis by blast
    qed
  next
    assume "\<exists>p q. c # cs = p @ sub @ q"
    then obtain p q where pq: "c # cs = p @ sub @ q" by blast
    show "Contains (c # cs) sub"
    proof (cases p)
      case Nil
      with pq have "HasPrefix (c # cs) sub" by (auto simp: HasPrefix_iff)
      then show ?thesis by simp
    next
      case (Cons a p')
      with pq have "cs = p' @ sub @ q" by simp
      then have "Contains cs sub" using Cons.IH by blast
      then show ?thesis by simp
    qed
  qed
qed

lemma Split_nonempty: "Split s sep \<noteq> []"
  by (induction s) (auto split: list.splits)

lemma Join_Split: "Join (Split s sep) [sep] = s"
proof (induction s)
  case Nil show ?case by simp
next
  case (Cons c cs)
  show ?case
  proof (cases "c = sep")
    case True
    then show ?thesis using Cons Split_nonempty[of cs sep]
      by (cases "Split cs sep") auto
  next
    case False
    then show ?thesis using Cons Split_nonempty[of cs sep]
      by (cases "Split cs sep") (auto simp: Join_Cons)
  qed
qed

lemma Split_set: "\<forall>seg \<in> set (Split s sep). sep \<notin> set seg \<and> set seg \<subseteq> set s"
proof (induction s)
  case Nil show ?case by simp
next
  case (Cons c cs)
  show ?case
  proof (cases "Split cs sep")
    case Nil
    then show ?thesis by (simp add: Split_nonempty)
  next
    case (Cons seg segs)
    with Cons.IH have h: "sep \<notin> set seg \<and> set seg \<subseteq> set cs"
      "\<forall>x \<in> set segs. sep \<notin> set x \<and> set x \<subseteq> set cs" by auto
    show ?thesis using h Cons by (cases "c = sep") auto
  qed
qed

section \<open>Facts about the quoter\<close>

lemma quoteSegments_eq:
  "quoteSegments symbol segs result = result @ map (quoteSegment symbol) segs"
  by (induction segs arbitrary: result) auto

lemma quoteIdentifier_eq:
  "quoteIdentifier name driver =
     (let symbol = (if driver = driverMysql then backtick else dquote)
      in Join (map (quoteSegment symbol) (Split (ReplaceAll name symbol) (CHR ''.''))) ''.'')"
  by (simp add: quoteIdentifier_def quoteSegments_eq Let_def)

lemma filter_quoteSegment:
  "symbol \<notin> set s \<Longrightarrow> symbol \<noteq> CHR ''*'' \<Longrightarrow>
     filter (\<lambda>c. c \<noteq> symbol) (quoteSegment symbol s) = s"
  by (auto simp: quoteSegment_def intro: filter_True)

lemma strip_Join:
  assumes "\<forall>seg \<in> set segs. symbol \<notin> set seg"
    and "symbol \<noteq> CHR ''.''" and "symbol \<noteq> CHR ''*''"
  shows "ReplaceAll (Join (map (quoteSegment symbol) segs) ''.'') symbol = Join segs ''.''"
proof (cases segs)
  case Nil then show ?thesis by (simp add: ReplaceAll_def)
next
  case (Cons x xs)
  have "\<forall>s \<in> set xs. symbol \<notin> set s" using assms(1) Cons by simp
  then have tl:
    "concat (map (filter (\<lambda>c. c \<noteq> symbol) \<circ> ((\<lambda>y. ''.'' @ y) \<circ> quoteSegment symbol)) xs)
       = concat (map (\<lambda>y. ''.'' @ y) xs)"
    by (induction xs) (simp_all add: filter_quoteSegment assms(2)[symmetric] assms(3))
  have hd: "filter (\<lambda>c. c \<noteq> symbol) (quoteSegment symbol x) = x"
    using assms(1,3) Cons by (simp add: filter_quoteSegment)
  show ?thesis unfolding Cons ReplaceAll_def
    by (simp only: list.map Join_Cons filter_append filter_concat map_map hd tl)
qed

lemma requote:
  assumes "symbol \<noteq> CHR ''.''" and "symbol \<noteq> CHR ''*''"
  shows "ReplaceAll (Join (map (quoteSegment symbol)
                            (Split (ReplaceAll x symbol) (CHR ''.''))) ''.'') symbol
           = ReplaceAll x symbol"
proof -
  have "symbol \<notin> set (ReplaceAll x symbol)" by (simp add: ReplaceAll_def)
  then have segs: "\<forall>seg \<in> set (Split (ReplaceAll x symbol) (CHR ''.'')). symbol \<notin> set seg"
    using Split_set[of "ReplaceAll x symbol" "CHR ''.''"] by blast
  show ?thesis
    using strip_Join[OF segs assms] Join_Split[of "ReplaceAll x symbol" "CHR ''.''"] by simp
qed

section \<open>Facts about the loops of the builders\<close>

lemma selectColumns_eq:
  "selectColumns esc driver cols columns =
     columns @ map (\<lambda>col. quoteColumn esc (DBField col) driver) cols"
  by (induction cols arbitrary: columns) auto

lemma primaryKeyLoop_Suc:
  "primaryKeyLoop esc driver first (Suc i) cols stmt =
     stmt @ concat (map (\<lambda>col. '' AND '' @ equality esc driver col) cols)"
  by (induction cols arbitrary: i stmt) (auto simp: equality_def)

lemma primaryKeyLoop_0:
  "primaryKeyLoop esc driver first 0 cols stmt =
     (if cols = [] then stmt
      else stmt @ first @ Join (map (equality esc driver) cols) '' AND '')"
  by (cases cols) (simp_all add: primaryKeyLoop_Suc Join_Cons equality_def comp_def)

lemma insertColumns_eq:
  "insertColumns esc driver cols (columns, returnings, placeholder) =
     (columns @ map (\<lambda>col. quoteColumn esc (DBField col) driver)
                  (filter (\<lambda>col. \<not> ReturningInsert col \<and> \<not> AutoIncrement col) cols),
      returnings @ map (\<lambda>col. quoteColumn esc (DBField col) driver) (filter ReturningInsert cols),
      placeholder @ map (\<lambda>col. '':'' @ DBField col)
                  (filter (\<lambda>col. \<not> ReturningInsert col \<and> \<not> AutoIncrement col) cols))"
  by (induction cols arbitrary: columns returnings placeholder) (auto simp: Let_def)

lemma updateColumns_set:
  "updateColumns esc driver cols (returnings, stmt, True) =
     (returnings @ map (\<lambda>col. quoteColumn esc (DBField col) driver) (filter ReturningUpdate cols),
      stmt @ concat (map (\<lambda>col. '', '' @ equality esc driver col)
                      (filter (\<lambda>col. \<not> ReturningUpdate col \<and> \<not> RefuseUpdate col) cols)),
      True)"
  by (induction cols arbitrary: returnings stmt) (auto simp: equality_def)

lemma updateColumns_unset:
  "updateColumns esc driver cols (returnings, stmt, False) =
     (returnings @ map (\<lambda>col. quoteColumn esc (DBField col) driver) (filter ReturningUpdate cols),
      (if filter (\<lambda>col. \<not> ReturningUpdate col \<and> \<not> RefuseUpdate col) cols = [] then stmt
       else stmt @ '' '' @ Join (map (equality esc driver)
                      (filter (\<lambda>col. \<not> ReturningUpdate col \<and> \<not> RefuseUpdate col) cols)) '', ''),
      filter (\<lambda>col. \<not> ReturningUpdate col \<and> \<not> RefuseUpdate col) cols \<noteq> [])"
  by (induction cols arbitrary: returnings stmt)
     (auto simp: updateColumns_set Join_Cons equality_def comp_def)

section \<open>Closed forms of the four statements\<close>

lemmas eval_defs =
  quoteIdentifier_def quoteColumn_def Quote_def driverMysql_def driverPostgres_def
  driverSqlite3_def backtick_def dquote_def backslash_def printableASCII_def ReplaceAll_def
  quoteSegment_def equality_def Let_def

lemmas sample_defs =
  idColumn_def tenantColumn_def emailColumn_def createdAtColumn_def versionColumn_def
  account_def plainAccount_def tenantAccount_def frozenAccount_def noStatements_def
  emptyDB_def echoDB_def

lemma appendQuoted_plain:
  "\<forall>c \<in> set name. printableASCII c \<and> c \<noteq> dquote \<and> c \<noteq> backslash \<Longrightarrow>
     appendQuoted esc 0 name = name"
  by (induction name) auto

lemma selectStatement_eq:
  "selectStatement esc ent md driver =
     ''SELECT '' @ Join (map (\<lambda>col. quoteColumn esc (DBField col) driver) (Columns md)) '', ''
       @ '' FROM '' @ quoteIdentifier (TableName md) driver @ '' WHERE''
       @ (if PrimaryKeys md = [] then []
          else '' '' @ Join (map (equality esc driver) (PrimaryKeys md)) '' AND '')
       @ '' LIMIT 1''"
  by (simp add: selectStatement_def selectColumns_eq primaryKeyLoop_0 Let_def)

lemma insertStatement_eq:
  "insertStatement esc ent md driver =
     ''INSERT INTO '' @ quoteIdentifier (TableName md) driver @ '' (''
       @ Join (map (\<lambda>col. quoteColumn esc (DBField col) driver)
                 (filter (\<lambda>col. \<not> ReturningInsert col \<and> \<not> AutoIncrement col) (Columns md))) '', ''
       @ '') VALUES (''
       @ Join (map (\<lambda>col. '':'' @ DBField col)
                 (filter (\<lambda>col. \<not> ReturningInsert col \<and> \<not> AutoIncrement col) (Columns md))) '', ''
       @ '')''
       @ (if filter ReturningInsert (Columns md) = [] then []
          else '' RETURNING '' @ Join (map (\<lambda>col. quoteColumn esc (DBField col) driver)
                                         (filter ReturningInsert (Columns md))) '', '')"
  by (simp add: insertStatement_def insertColumns_eq Let_def)

lemma updateStatement_eq:
  "updateStatement esc ent md driver =
     ''UPDATE '' @ quoteIdentifier (TableName md) driver @ '' SET''
       @ (if filter (\<lambda>col. \<not> ReturningUpdate col \<and> \<not> RefuseUpdate col) (Columns md) = [] then []
          else '' '' @ Join (map (equality esc driver)
                 (filter (\<lambda>col. \<not> ReturningUpdate col \<and> \<not> RefuseUpdate col) (Columns md))) '', '')
       @ (if PrimaryKeys md = [] then []
          else '' WHERE '' @ Join (map (equality esc driver) (PrimaryKeys md)) '' AND '')
       @ (if filter ReturningUpdate (Columns md) = [] then []
          else '' RETURNING '' @ Join (map (\<lambda>col. quoteColumn esc (DBField col) driver)
                                         (filter ReturningUpdate (Columns md))) '', '')"
  by (simp add: updateStatement_def updateColumns_unset primaryKeyLoop_0 Let_def)

section \<open>Facts about the caches\<close>

lemma grows_refl: "grows st st"
  by (simp add: grows_def)

lemma grows_trans: "grows a b \<Longrightarrow> grows b c \<Longrightarrow> grows a c"
  unfolding grows_def by (blast intro: map_le_trans)

lemma map_le_upd_None: "m k = None \<Longrightarrow> m \<subseteq>\<^sub>m m(k \<mapsto> v)"
  by (auto simp: map_le_def)

lemma loadStatement_grows: "grows st (snd (loadStatement esc st ent md db))"
  by (simp add: loadStatement_def grows_def Let_def map_le_upd_None split: option.splits)

lemma insertStatementOf_grows: "grows st (snd (insertStatementOf esc st ent md db))"
  by (simp add: insertStatementOf_def grows_def Let_def map_le_upd_None split: option.splits)

lemma updateStatementOf_grows: "grows st (snd (updateStatementOf esc st ent md db))"
  by (simp add: updateStatementOf_def grows_def Let_def map_le_upd_None split: option.splits)

lemma deleteStatementOf_grows: "grows st (snd (deleteStatementOf esc st ent md db))"
  by (simp add: deleteStatementOf_def grows_def Let_def map_le_upd_None split: option.splits)

lemma doLoad_caches:
  "snd (snd (doLoad getMetadata esc st ent db)) =
     (case getMetadata ent of Inl err \<Rightarrow> st | Inr md \<Rightarrow> snd (loadStatement esc st ent md db))"
  by (simp add: doLoad_def split: prod.splits sum.splits)

lemma doInsert_caches:
  "snd (snd (doInsert getMetadata esc st ent db)) =
     (case getMetadata ent of Inl err \<Rightarrow> st | Inr md \<Rightarrow> snd (insertStatementOf esc st ent md db))"
  by (simp add: doInsert_def split: prod.splits sum.splits)

lemma doUpdate_caches:
  "snd (snd (doUpdate getMetadata esc st ent db)) =
     (case getMetadata ent of Inl err \<Rightarrow> st | Inr md \<Rightarrow> snd (updateStatementOf esc st ent md db))"
  by (simp add: doUpdate_def split: prod.splits sum.splits option.splits)

lemma doDelete_caches:
  "snd (snd (doDelete getMetadata esc st ent db)) =
     (case getMetadata ent of Inl err \<Rightarrow> st | Inr md \<Rightarrow> snd (deleteStatementOf esc st ent md db))"
  by (simp add: doDelete_def split: prod.splits sum.splits)

lemma perform_grows: "grows st (perform getMetadata esc st c)"
  by (cases c)
     (simp_all add: doLoad_caches doInsert_caches doUpdate_caches doDelete_caches grows_refl
        loadStatement_grows insertStatementOf_grows updateStatementOf_grows
        deleteStatementOf_grows split: sum.splits)

lemma performAll_grows: "grows st (performAll getMetadata esc st cs)"
proof (induction cs arbitrary: st)
  case Nil
  show ?case by (simp add: grows_refl)
next
  case (Cons c cs)
  have "grows st (perform getMetadata esc st c)" by (rule perform_grows)
  moreover have "grows (perform getMetadata esc st c)
                   (performAll getMetadata esc (perform getMetadata esc st c) cs)"
    by (rule Cons.IH)
  ultimately show ?case by (auto intro: grows_trans)
qed

lemma grows_Some:
  assumes "grows st st'"
  shows "selectStatements st k = Some s \<Longrightarrow> selectStatements st' k = Some s"
    and "insertStatements st k = Some s \<Longrightarrow> insertStatements st' k = Some s"
    and "updateStatements st k = Some s \<Longrightarrow> updateStatements st' k = Some s"
    and "deleteStatements st k = Some s \<Longrightarrow> deleteStatements st' k = Some s"
  using assms unfolding grows_def map_le_def by (metis domI)+

lemma doLoad_hit:
  "getMetadata ent = Inr md \<Longrightarrow> selectStatements st (Type md) = Some s \<Longrightarrow>
     doLoad getMetadata esc st ent db = loadWith s ent db st"
  by (simp add: doLoad_def loadStatement_def loadWith_def)

lemma doInsert_hit:
  "getMetadata ent = Inr md \<Longrightarrow> insertStatements st (Type md) = Some s \<Longrightarrow>
     doInsert getMetadata esc st ent db = insertWith s md ent db st"
  by (simp add: doInsert_def insertStatementOf_def insertWith_def)

lemma doUpdate_hit:
  "getMetadata ent = Inr md \<Longrightarrow> updateStatements st (Type md) = Some s \<Longrightarrow>
     doUpdate getMetadata esc st ent db = updateWith s md ent db st"
  by (simp add: doUpdate_def updateStatementOf_def updateWith_def)

lemma doDelete_hit:
  "getMetadata ent = Inr md \<Longrightarrow> deleteStatements st (Type md) = Some s \<Longrightarrow>
     doDelete getMetadata esc st ent db = deleteWith s ent db st"
  by (simp add: doDelete_def deleteStatementOf_def deleteWith_def)

lemma doLoad_miss:
  "getMetadata ent = Inr md \<Longrightarrow> selectStatements st (Type md) = None \<Longrightarrow>
     selectStatements (snd (snd (doLoad getMetadata esc st ent db))) (Type md)
       = Some (selectStatement esc ent md (dbDriver db))"
  by (simp add: doLoad_caches loadStatement_def Let_def)

lemma doInsert_miss:
  "getMetadata ent = Inr md \<Longrightarrow> insertStatements st (Type md) = None \<Longrightarrow>
     insertStatements (snd (snd (doInsert getMetadata esc st ent db))) (Type md)
       = Some (insertStatement esc ent md (dbDriver db))"
  by (simp add: doInsert_caches insertStatementOf_def Let_def)

lemma doUpdate_miss:
  "getMetadata ent = Inr md \<Longrightarrow> updateStatements st (Type md) = None \<Longrightarrow>
     updateStatements (snd (snd (doUpdate getMetadata esc st ent db))) (Type md)
       = Some (updateStatement esc ent md (dbDriver db))"
  by (simp add: doUpdate_caches updateStatementOf_def Let_def)

lemma doDelete_miss:
  "getMetadata ent = Inr md \<Longrightarrow> deleteStatements st (Type md) = None \<Longrightarrow>
     deleteStatements (snd (snd (doDelete getMetadata esc st ent db))) (Type md)
       = Some (deleteStatement esc ent md (dbDriver db))"
  by (simp add: doDelete_caches deleteStatementOf_def Let_def)

lemma HasSuffix_append: "HasSuffix (p @ suffix) suffix"
  by (simp add: HasSuffix_def)

section \<open>The execution protocol: results\<close>

text \<open>
  On the path of doInsert that reads the last-insert-id, the error returned is
  built by \<^verbatim>\<open>fmt.Errorf\<close> whatever \<^verbatim>\<open>LastInsertId\<close> reported, so it is never \<^verbatim>\<open>nil\<close>
  when the command itself succeeded.
\<close>

lemma doInsert_lastInsertId_wrapped:
  assumes "getMetadata ent = Inr md" and "\<not> hasReturningInsert md"
    and "dbDriver db \<noteq> driverPostgres"
    and "NamedExecContext db (fst (insertStatementOf esc st ent md db)) ent = Inr result"
  shows "fst (doInsert getMetadata esc st ent db) =
           (fst (LastInsertId result),
            Some (Errorf ''get last insert id, '' (snd (LastInsertId result))))"
  using assms by (auto simp: doInsert_def split: prod.splits)

text \<open>
  C1.  An insert without returning columns on a dialect other than PostgreSQL,
  whose command succeeds and whose driver reports a last-insert-id with no error,
  should return the id and no error.  The code does not: for the account without
  returning column on a MySQL handle that reports id 7 with a \<^verbatim>\<open>nil\<close> error,
  doInsert returns 7 together with the error that wraps \<^verbatim>\<open>nil\<close>.
\<close>

theorem doInsert_lastInsertId_error:
  "fst (doInsert (\<lambda>e. Inr plainAccount) hexEscaper noStatements () (emptyDB ''mysql'' 7 1))
     = (7, Some (Errorf ''get last insert id, '' None))"
  by (simp add: doInsert_def insertStatementOf_def emptyDB_def plainAccount_def noStatements_def
        dbDriver_def driverAlias_def driverPostgres_def Let_def)

text \<open>
  C2.  Not-found semantics.  A load whose query succeeds with no row returns
  \<open>ErrNoRows\<close>; an update without returning columns whose command succeeds and
  reports zero affected rows returns \<open>ErrNoRows\<close>; a delete whose command succeeds
  returns no error, whatever the result says about affected rows.
\<close>

theorem not_found_semantics:
  "(getMetadata ent = Inr md
      \<and> NamedQueryContext db (fst (loadStatement esc st ent md db)) ent = Inr rows
      \<and> \<not> Next rows
      \<longrightarrow> fst (doLoad getMetadata esc st ent db) = Some ErrNoRows)
   \<and> (getMetadata ent = Inr md \<and> \<not> hasReturningUpdate md
      \<and> NamedExecContext db (fst (updateStatementOf esc st ent md db)) ent = Inr result
      \<and> RowsAffected result = (0, None)
      \<longrightarrow> fst (doUpdate getMetadata esc st ent db) = Some ErrNoRows)
   \<and> (getMetadata ent = Inr md
      \<and> NamedExecContext db (fst (deleteStatementOf esc st ent md db)) ent = Inr result
      \<longrightarrow> fst (doDelete getMetadata esc st ent db) = None)"
  by (auto simp: doLoad_def doUpdate_def doDelete_def scanRow_def split: prod.splits)

theorem not_found_semantics_witness:
  "\<not> hasReturningUpdate plainAccount
   \<and> NamedQueryContext (emptyDB ''mysql'' 7 0)
        (fst (loadStatement hexEscaper noStatements () plainAccount (emptyDB ''mysql'' 7 0))) ()
       = Inr \<lparr>Next = False, StructScan = (\<lambda>e. (None, e)), Err = None\<rparr>
   \<and> NamedExecContext (emptyDB ''mysql'' 7 0)
        (fst (updateStatementOf hexEscaper noStatements () plainAccount (emptyDB ''mysql'' 7 0))) ()
       = Inr \<lparr>LastInsertId = (7, None), RowsAffected = (0, None)\<rparr>
   \<and> NamedExecContext (emptyDB ''mysql'' 7 0)
        (fst (deleteStatementOf hexEscaper noStatements () plainAccount (emptyDB ''mysql'' 7 0))) ()
       = Inr \<lparr>LastInsertId = (7, None), RowsAffected = (0, None)\<rparr>
   \<and> fst (doLoad (\<lambda>e. Inr plainAccount) hexEscaper noStatements () (emptyDB ''mysql'' 7 0))
       = Some ErrNoRows
   \<and> fst (doUpdate (\<lambda>e. Inr plainAccount) hexEscaper noStatements () (emptyDB ''mysql'' 7 0))
       = Some ErrNoRows
   \<and> fst (doDelete (\<lambda>e. Inr plainAccount) hexEscaper noStatements () (emptyDB ''mysql'' 7 0))
       = None"
  using not_found_semantics[of "\<lambda>e. Inr plainAccount" "()" plainAccount "emptyDB ''mysql'' 7 0"
      hexEscaper noStatements
      "\<lparr>Next = False, StructScan = (\<lambda>e. (None, e)), Err = None\<rparr>"
      "\<lparr>LastInsertId = (7, None), RowsAffected = (0, None)\<rparr>"]
  by (simp add: emptyDB_def plainAccount_def)

section \<open>The statement builders: results\<close>

text \<open>
  C3.  The insert statement names, in the column list and as placeholders, exactly
  the columns flagged neither ReturningInsert nor AutoIncrement, in the order of
  \<open>Columns\<close>; the columns flagged ReturningInsert appear in the RETURNING clause
  only; and the RETURNING clause is there if and only if some column is flagged
  ReturningInsert.
\<close>

theorem insertStatement_columns:
  "insertStatement esc ent md driver =
     ''INSERT INTO '' @ quoteIdentifier (TableName md) driver @ '' (''
       @ Join (map (\<lambda>col. quoteColumn esc (DBField col) driver)
                 (filter (\<lambda>col. \<not> ReturningInsert col \<and> \<not> AutoIncrement col) (Columns md))) '', ''
       @ '') VALUES (''
       @ Join (map (\<lambda>col. '':'' @ DBField col)
                 (filter (\<lambda>col. \<not> ReturningInsert col \<and> \<not> AutoIncrement col) (Columns md))) '', ''
       @ '')''
       @ (if \<exists>col \<in> set (Columns md). ReturningInsert col
          then '' RETURNING '' @ Join (map (\<lambda>col. quoteColumn esc (DBField col) driver)
                                         (filter ReturningInsert (Columns md))) '', ''
          else [])"
  by (simp add: insertStatement_eq filter_empty_conv)

theorem insertStatement_columns_witness:
  \<open>insertStatement hexEscaper () account ''postgres''
     = ''INSERT INTO "account" ("email") VALUES (:email) RETURNING "created_at"''
   \<and> insertStatement hexEscaper () plainAccount ''mysql''
     = ''INSERT INTO `account` (`email`) VALUES (:email)''\<close>
  using insertStatement_columns[of hexEscaper "()" account "''postgres''"]
    insertStatement_columns[of hexEscaper "()" plainAccount "''mysql''"]
  by (simp add: sample_defs eval_defs)

text \<open>
  C4, as the code has it.  The update statement sets exactly the columns flagged
  neither ReturningUpdate nor RefuseUpdate, comma-joined after \<^verbatim>\<open>SET\<close> with no
  comma before the first; the columns flagged ReturningUpdate appear in the
  RETURNING clause only; and the primary-key predicate after \<^verbatim>\<open>WHERE\<close> is the
  AND-joined text that the select statement has between \<^verbatim>\<open>WHERE\<close> and \<^verbatim>\<open>LIMIT 1\<close>.
  The statement ends with that predicate when no column is flagged
  ReturningUpdate; otherwise the RETURNING clause follows the predicate.
\<close>

theorem updateStatement_set_where:
  "updateStatement esc ent md driver =
     ''UPDATE '' @ quoteIdentifier (TableName md) driver @ '' SET''
       @ (if filter (\<lambda>col. \<not> ReturningUpdate col \<and> \<not> RefuseUpdate col) (Columns md) = [] then []
          else '' '' @ Join (map (equality esc driver)
                 (filter (\<lambda>col. \<not> ReturningUpdate col \<and> \<not> RefuseUpdate col) (Columns md))) '', '')
       @ (if PrimaryKeys md = [] then []
          else '' WHERE '' @ Join (map (equality esc driver) (PrimaryKeys md)) '' AND '')
       @ (if filter ReturningUpdate (Columns md) = [] then []
          else '' RETURNING '' @ Join (map (\<lambda>col. quoteColumn esc (DBField col) driver)
                                         (filter ReturningUpdate (Columns md))) '', '')
   \<and> (PrimaryKeys md \<noteq> [] \<longrightarrow>
        selectStatement esc ent md driver =
          ''SELECT '' @ Join (map (\<lambda>col. quoteColumn esc (DBField col) driver) (Columns md)) '', ''
            @ '' FROM '' @ quoteIdentifier (TableName md) driver
            @ '' WHERE '' @ Join (map (equality esc driver) (PrimaryKeys md)) '' AND ''
            @ '' LIMIT 1'')
   \<and> (filter ReturningUpdate (Columns md) = [] \<longrightarrow>
        HasSuffix (updateStatement esc ent md driver)
          (Join (map (equality esc driver) (PrimaryKeys md)) '' AND ''))"
proof -
  have ends: "HasSuffix (updateStatement esc ent md driver)
          (Join (map (equality esc driver) (PrimaryKeys md)) '' AND '')"
    if "filter ReturningUpdate (Columns md) = []"
  proof (cases "PrimaryKeys md = []")
    case True
    then show ?thesis by (simp add: HasSuffix_def)
  next
    case False
    have "updateStatement esc ent md driver =
        (''UPDATE '' @ quoteIdentifier (TableName md) driver @ '' SET''
          @ (if filter (\<lambda>col. \<not> ReturningUpdate col \<and> \<not> RefuseUpdate col) (Columns md) = []
             then []
             else '' '' @ Join (map (equality esc driver)
                 (filter (\<lambda>col. \<not> ReturningUpdate col \<and> \<not> RefuseUpdate col) (Columns md))) '', '')
          @ '' WHERE '')
        @ Join (map (equality esc driver) (PrimaryKeys md)) '' AND ''"
      using that False by (simp add: updateStatement_eq)
    then show ?thesis by (simp only: HasSuffix_append)
  qed
  show ?thesis using ends by (simp add: updateStatement_eq selectStatement_eq)
qed

theorem updateStatement_set_where_witness:
  \<open>PrimaryKeys tenantAccount \<noteq> []
   \<and> updateStatement hexEscaper () tenantAccount ''mysql''
     = ''UPDATE `crm`.`account` SET `email` = :email WHERE `tenant` = :tenant AND `id` = :id RETURNING `version`''
   \<and> selectStatement hexEscaper () tenantAccount ''mysql''
     = ''SELECT `tenant`, `id`, `email`, `version` FROM `crm`.`account` WHERE `tenant` = :tenant AND `id` = :id LIMIT 1''
   \<and> filter ReturningUpdate (Columns account) = []
   \<and> updateStatement hexEscaper () account ''postgres''
     = ''UPDATE "account" SET "email" = :email WHERE "id" = :id''
   \<and> HasSuffix (updateStatement hexEscaper () account ''postgres'') ''"id" = :id''\<close>
proof -
  have nr: "filter ReturningUpdate (Columns account) = []"
    by (simp add: sample_defs)
  have pred: \<open>Join (map (equality hexEscaper ''postgres'') (PrimaryKeys account)) '' AND ''
      = ''"id" = :id''\<close>
    by (simp add: sample_defs eval_defs)
  have \<open>HasSuffix (updateStatement hexEscaper () account ''postgres'')
          (Join (map (equality hexEscaper ''postgres'') (PrimaryKeys account)) '' AND '')\<close>
    using updateStatement_set_where[of hexEscaper "()" account "''postgres''"] nr by blast
  then have ends:
    \<open>HasSuffix (updateStatement hexEscaper () account ''postgres'') ''"id" = :id''\<close>
    unfolding pred .
  have rest: \<open>PrimaryKeys tenantAccount \<noteq> []
   \<and> updateStatement hexEscaper () tenantAccount ''mysql''
     = ''UPDATE `crm`.`account` SET `email` = :email WHERE `tenant` = :tenant AND `id` = :id RETURNING `version`''
   \<and> selectStatement hexEscaper () tenantAccount ''mysql''
     = ''SELECT `tenant`, `id`, `email`, `version` FROM `crm`.`account` WHERE `tenant` = :tenant AND `id` = :id LIMIT 1''
   \<and> updateStatement hexEscaper () account ''postgres''
     = ''UPDATE "account" SET "email" = :email WHERE "id" = :id''\<close>
    using updateStatement_set_where[of hexEscaper "()" tenantAccount "''mysql''"]
      updateStatement_set_where[of hexEscaper "()" account "''postgres''"]
    by (simp add: sample_defs eval_defs)
  show ?thesis using rest nr ends by blast
qed

text \<open>
  The claim C4 as it is written fails where a column is flagged ReturningUpdate:
  the update statement of \<open>tenantAccount\<close> does not end with its primary-key
  predicate, the RETURNING clause comes after it.
\<close>

theorem updateStatement_ends_counterexample:
  \<open>updateStatement hexEscaper () tenantAccount ''mysql''
     = ''UPDATE `crm`.`account` SET `email` = :email WHERE `tenant` = :tenant AND `id` = :id RETURNING `version`''
   \<and> Join (map (equality hexEscaper ''mysql'') (PrimaryKeys tenantAccount)) '' AND ''
     = ''`tenant` = :tenant AND `id` = :id''
   \<and> \<not> HasSuffix (updateStatement hexEscaper () tenantAccount ''mysql'')
          (Join (map (equality hexEscaper ''mysql'') (PrimaryKeys tenantAccount)) '' AND '')\<close>
proof -
  have u: \<open>updateStatement hexEscaper () tenantAccount ''mysql''
     = ''UPDATE `crm`.`account` SET `email` = :email WHERE `tenant` = :tenant AND `id` = :id RETURNING `version`''\<close>
    by (simp add: updateStatement_def sample_defs eval_defs)
  have p: \<open>Join (map (equality hexEscaper ''mysql'') (PrimaryKeys tenantAccount)) '' AND ''
     = ''`tenant` = :tenant AND `id` = :id''\<close>
    by (simp add: sample_defs eval_defs)
  have n: \<open>\<not> HasSuffix ''UPDATE `crm`.`account` SET `email` = :email WHERE `tenant` = :tenant AND `id` = :id RETURNING `version`''
          ''`tenant` = :tenant AND `id` = :id''\<close>
    by code_simp
  show ?thesis using n unfolding u p by (intro conjI refl)
qed

text \<open>
  C5.  With at least one primary key, the select statement lists every column of
  \<open>Columns\<close> in order, and its WHERE clause is one equality predicate for each
  column of \<open>PrimaryKeys\<close>, in order, joined by \<^verbatim>\<open>AND\<close>, followed by \<^verbatim>\<open>LIMIT 1\<close>.
\<close>

theorem selectStatement_where:
  assumes "PrimaryKeys md \<noteq> []"
  shows "selectStatement esc ent md driver =
           ''SELECT '' @ Join (map (\<lambda>col. quoteColumn esc (DBField col) driver) (Columns md)) '', ''
             @ '' FROM '' @ quoteIdentifier (TableName md) driver
             @ '' WHERE '' @ Join (map (equality esc driver) (PrimaryKeys md)) '' AND ''
             @ '' LIMIT 1''
         \<and> length (map (equality esc driver) (PrimaryKeys md)) = length (PrimaryKeys md)"
  using assms by (simp add: selectStatement_eq)

theorem selectStatement_where_witness:
  \<open>PrimaryKeys tenantAccount \<noteq> []
   \<and> selectStatement hexEscaper () tenantAccount ''postgres''
     = ''SELECT "tenant", "id", "email", "version" FROM "crm"."account" WHERE "tenant" = :tenant AND "id" = :id LIMIT 1''\<close>
proof -
  have pk: "PrimaryKeys tenantAccount \<noteq> []" by (simp add: tenantAccount_def)
  show ?thesis
    using pk selectStatement_where[OF pk, of hexEscaper "()" "''postgres''"]
    by (simp add: sample_defs eval_defs)
qed

text \<open>
  C10.  When every column is flagged ReturningUpdate or RefuseUpdate, the update
  statement is still built and has nothing between \<^verbatim>\<open>SET\<close> and what follows: with
  primary keys the text reads \<^verbatim>\<open>SET WHERE\<close>.
\<close>

theorem updateStatement_empty_set:
  assumes "\<forall>col \<in> set (Columns md). ReturningUpdate col \<or> RefuseUpdate col"
  shows "updateStatement esc ent md driver =
     ''UPDATE '' @ quoteIdentifier (TableName md) driver @ '' SET''
       @ (if PrimaryKeys md = [] then []
          else '' WHERE '' @ Join (map (equality esc driver) (PrimaryKeys md)) '' AND '')
       @ (if filter ReturningUpdate (Columns md) = [] then []
          else '' RETURNING '' @ Join (map (\<lambda>col. quoteColumn esc (DBField col) driver)
                                         (filter ReturningUpdate (Columns md))) '', '')"
proof -
  have "filter (\<lambda>col. \<not> ReturningUpdate col \<and> \<not> RefuseUpdate col) (Columns md) = []"
    using assms by (auto simp: filter_empty_conv)
  then show ?thesis by (simp add: updateStatement_eq)
qed

theorem updateStatement_empty_set_witness:
  \<open>list_all (\<lambda>col. ReturningUpdate col \<or> RefuseUpdate col) (Columns frozenAccount)
   \<and> updateStatement hexEscaper () frozenAccount ''mysql''
     = ''UPDATE `account` SET WHERE `id` = :id RETURNING `version`''\<close>
proof -
  have h: "\<forall>col \<in> set (Columns frozenAccount). ReturningUpdate col \<or> RefuseUpdate col"
    by (simp add: sample_defs)
  show ?thesis
    using h updateStatement_empty_set[OF h, of hexEscaper "()" "''mysql''"]
    by (simp add: sample_defs eval_defs)
qed

section \<open>The quoter and the classifier: results\<close>

text \<open>
  C6.  quoteIdentifier is idempotent for every dialect and every identifier:
  quoting the result of quoting gives the result of quoting once, because the
  quote character is stripped before the segments are quoted again.
\<close>

theorem quoteIdentifier_idempotent:
  "quoteIdentifier (quoteIdentifier x d) d = quoteIdentifier x d"
proof (cases "d = driverMysql")
  case True
  have "backtick \<noteq> CHR ''.''" "backtick \<noteq> CHR ''*''" by (simp_all add: backtick_def)
  from requote[OF this] show ?thesis using True by (simp add: quoteIdentifier_eq)
next
  case False
  have "dquote \<noteq> CHR ''.''" "dquote \<noteq> CHR ''*''" by (simp_all add: dquote_def)
  from requote[OF this] show ?thesis using False by (simp add: quoteIdentifier_eq)
qed

theorem quoteIdentifier_idempotent_witness:
  \<open>quoteIdentifier ''crm."account".*'' ''postgres'' = ''"crm"."account".*''
   \<and> quoteIdentifier (quoteIdentifier ''crm."account".*'' ''postgres'') ''postgres''
       = ''"crm"."account".*''\<close>
proof -
  have q: \<open>quoteIdentifier ''crm."account".*'' ''postgres'' = ''"crm"."account".*''\<close>
    by (simp add: eval_defs)
  show ?thesis
    using q quoteIdentifier_idempotent[of \<open>''crm."account".*''\<close> "''postgres''"] by simp
qed

text \<open>
  C7, as the code has it.  For MySQL, quoteColumn wraps the name in backticks and
  quoteIdentifier wraps in backticks each dot-segment of the name with its
  backticks stripped.  For every other dialect, quoteIdentifier wraps in double
  quotes each dot-segment of the name with its double quotes stripped, while
  quoteColumn writes the name in Go's quoted form (\<^verbatim>\<open>%q\<close>): between two double
  quotes the escaped name, which is the name itself when the name is made of
  printable ASCII characters other than the double quote and the backslash.  In
  quoteIdentifier a segment equal to \<^verbatim>\<open>*\<close> is left as it is, every other segment is
  wrapped.
\<close>

theorem quoting_by_dialect:
  "quoteColumn esc name driverMysql = [backtick] @ name @ [backtick]
   \<and> quoteIdentifier name driverMysql =
       Join (map (quoteSegment backtick) (Split (ReplaceAll name backtick) (CHR ''.''))) ''.''
   \<and> (driver \<noteq> driverMysql \<longrightarrow>
        quoteColumn esc name driver = [dquote] @ appendQuoted esc 0 name @ [dquote]
        \<and> ((\<forall>c \<in> set name. printableASCII c \<and> c \<noteq> dquote \<and> c \<noteq> backslash) \<longrightarrow>
             quoteColumn esc name driver = [dquote] @ name @ [dquote])
        \<and> quoteIdentifier name driver =
             Join (map (quoteSegment dquote) (Split (ReplaceAll name dquote) (CHR ''.''))) ''.'')
   \<and> quoteSegment symbol ''*'' = ''*''
   \<and> (s \<noteq> ''*'' \<longrightarrow> quoteSegment symbol s = [symbol] @ s @ [symbol])"
  by (simp add: quoteColumn_def Quote_def quoteIdentifier_eq quoteSegment_def appendQuoted_plain)

theorem quoting_by_dialect_witness:
  \<open>''postgres'' \<noteq> driverMysql
   \<and> list_all (\<lambda>c. printableASCII c \<and> c \<noteq> dquote \<and> c \<noteq> backslash) ''created_at''
   \<and> ''account'' \<noteq> ''*''
   \<and> quoteColumn hexEscaper ''created_at'' driverMysql = ''`created_at`''
   \<and> quoteColumn hexEscaper ''created_at'' ''postgres'' = ''"created_at"''
   \<and> quoteSegment dquote ''account'' = ''"account"''\<close>
  using quoting_by_dialect[of hexEscaper "''created_at''" "''postgres''" dquote "''account''"]
  by (simp add: driverMysql_def backtick_def dquote_def backslash_def printableASCII_def)

text \<open>
  The claim C7 as it is written fails for quoteColumn on a dialect other than
  MySQL: the name \<^verbatim>\<open>a"b\<close> is not wrapped in double quotes, its double quote is
  written with a backslash before it.
\<close>

theorem quoteColumn_wrap_counterexample:
  \<open>''postgres'' \<noteq> driverMysql
   \<and> quoteColumn hexEscaper ''a"b'' ''postgres'' = ''"a'' @ [backslash] @ ''"b"''
   \<and> quoteColumn hexEscaper ''a"b'' ''postgres'' \<noteq> ''"'' @ ''a"b'' @ ''"''\<close>
  by (simp add: eval_defs)

text \<open>
  C8.  On the PostgreSQL dialect isConflictError is true exactly when the message
  of the error contains \<^verbatim>\<open>duplicate key value violates unique constraint\<close>, on the
  MySQL dialect exactly when it contains \<^verbatim>\<open>Duplicate entry\<close>, on the SQLite dialect
  exactly when it contains \<^verbatim>\<open>UNIQUE constraint failed\<close>.
\<close>

theorem isConflictError_substring:
  "(dbDriver db = driverPostgres \<longrightarrow>
      isConflictError db err =
        (\<exists>p q. Error err = p @ ''duplicate key value violates unique constraint'' @ q))
   \<and> (dbDriver db = driverMysql \<longrightarrow>
      isConflictError db err = (\<exists>p q. Error err = p @ ''Duplicate entry'' @ q))
   \<and> (dbDriver db = driverSqlite3 \<longrightarrow>
      isConflictError db err = (\<exists>p q. Error err = p @ ''UNIQUE constraint failed'' @ q))"
  by (simp add: isConflictError_def Let_def Contains_iff driverMysql_def driverPostgres_def
        driverSqlite3_def)

theorem isConflictError_substring_witness:
  "dbDriver (echoDB ''pgx'') = driverPostgres
   \<and> isConflictError (echoDB ''pgx'')
        (DriverError ''ERROR: duplicate key value violates unique constraint (SQLSTATE 23505)'')
   \<and> \<not> isConflictError (echoDB ''pgx'') (DriverError ''Duplicate entry'')
   \<and> dbDriver (echoDB ''mysql'') = driverMysql
   \<and> isConflictError (echoDB ''mysql'') (DriverError ''Error 1062: Duplicate entry'')
   \<and> dbDriver (echoDB ''sqlite3'') = driverSqlite3
   \<and> \<not> isConflictError (echoDB ''sqlite3'') (DriverError ''Error 1062: Duplicate entry'')"
proof -
  have d: "dbDriver (echoDB ''pgx'') = driverPostgres"
    "dbDriver (echoDB ''mysql'') = driverMysql"
    "dbDriver (echoDB ''sqlite3'') = driverSqlite3"
    by (simp_all add: dbDriver_def echoDB_def driverAlias_def driverPostgres_def driverMysql_def
          driverSqlite3_def)
  have yes: "\<exists>p q. Error (DriverError
        ''ERROR: duplicate key value violates unique constraint (SQLSTATE 23505)'')
       = p @ ''duplicate key value violates unique constraint'' @ q"
    "\<exists>p q. Error (DriverError ''Error 1062: Duplicate entry'') = p @ ''Duplicate entry'' @ q"
    unfolding Contains_iff[symmetric] by simp_all
  have no: "\<not> (\<exists>p q. Error (DriverError ''Duplicate entry'')
       = p @ ''duplicate key value violates unique constraint'' @ q)"
    "\<not> (\<exists>p q. Error (DriverError ''Error 1062: Duplicate entry'')
       = p @ ''UNIQUE constraint failed'' @ q)"
    unfolding Contains_iff[symmetric] by simp_all
  from isConflictError_substring[of "echoDB ''pgx''" "DriverError
        ''ERROR: duplicate key value violates unique constraint (SQLSTATE 23505)''"]
    isConflictError_substring[of "echoDB ''pgx''" "DriverError ''Duplicate entry''"]
    isConflictError_substring[of "echoDB ''mysql''" "DriverError ''Error 1062: Duplicate entry''"]
    isConflictError_substring[of "echoDB ''sqlite3''" "DriverError ''Error 1062: Duplicate entry''"]
  show ?thesis using d yes no by blast
qed

section \<open>The statement caches: results\<close>

text \<open>
  C9.  The caches are keyed by the entity type alone and an entry is never
  replaced.  Whatever calls follow, on whatever handles and entities, an entry of
  any of the four caches is still there with the same text.  An operation whose
  type is cached runs the cached text on its own handle, without building.  So
  when a first call on one handle caches the statement of a type, built for the
  dialect of that handle, a call for that type after any further calls runs that
  same text on its handle, whatever dialect that handle has.
\<close>

theorem statement_cache_keyed_by_type:
  "(selectStatements st k = Some s \<longrightarrow>
      selectStatements (performAll getMetadata esc st calls) k = Some s)
   \<and> (insertStatements st k = Some s \<longrightarrow>
      insertStatements (performAll getMetadata esc st calls) k = Some s)
   \<and> (updateStatements st k = Some s \<longrightarrow>
      updateStatements (performAll getMetadata esc st calls) k = Some s)
   \<and> (deleteStatements st k = Some s \<longrightarrow>
      deleteStatements (performAll getMetadata esc st calls) k = Some s)
   \<and> (getMetadata ent = Inr md \<and> selectStatements st (Type md) = Some s \<longrightarrow>
      doLoad getMetadata esc st ent db = loadWith s ent db st)
   \<and> (getMetadata ent = Inr md \<and> insertStatements st (Type md) = Some s \<longrightarrow>
      doInsert getMetadata esc st ent db = insertWith s md ent db st)
   \<and> (getMetadata ent = Inr md \<and> updateStatements st (Type md) = Some s \<longrightarrow>
      doUpdate getMetadata esc st ent db = updateWith s md ent db st)
   \<and> (getMetadata ent = Inr md \<and> deleteStatements st (Type md) = Some s \<longrightarrow>
      doDelete getMetadata esc st ent db = deleteWith s ent db st)
   \<and> (getMetadata ent = Inr md \<and> getMetadata ent' = Inr md' \<and> Type md' = Type md
        \<and> selectStatements st (Type md) = None \<longrightarrow>
      doLoad getMetadata esc
          (performAll getMetadata esc (snd (snd (doLoad getMetadata esc st ent db))) calls)
          ent' db'
        = loadWith (selectStatement esc ent md (dbDriver db)) ent' db'
            (performAll getMetadata esc (snd (snd (doLoad getMetadata esc st ent db))) calls))
   \<and> (getMetadata ent = Inr md \<and> getMetadata ent' = Inr md' \<and> Type md' = Type md
        \<and> insertStatements st (Type md) = None \<longrightarrow>
      doInsert getMetadata esc
          (performAll getMetadata esc (snd (snd (doInsert getMetadata esc st ent db))) calls)
          ent' db'
        = insertWith (insertStatement esc ent md (dbDriver db)) md' ent' db'
            (performAll getMetadata esc (snd (snd (doInsert getMetadata esc st ent db))) calls))
   \<and> (getMetadata ent = Inr md \<and> getMetadata ent' = Inr md' \<and> Type md' = Type md
        \<and> updateStatements st (Type md) = None \<longrightarrow>
      doUpdate getMetadata esc
          (performAll getMetadata esc (snd (snd (doUpdate getMetadata esc st ent db))) calls)
          ent' db'
        = updateWith (updateStatement esc ent md (dbDriver db)) md' ent' db'
            (performAll getMetadata esc (snd (snd (doUpdate getMetadata esc st ent db))) calls))
   \<and> (getMetadata ent = Inr md \<and> getMetadata ent' = Inr md' \<and> Type md' = Type md
        \<and> deleteStatements st (Type md) = None \<longrightarrow>
      doDelete getMetadata esc
          (performAll getMetadata esc (snd (snd (doDelete getMetadata esc st ent db))) calls)
          ent' db'
        = deleteWith (deleteStatement esc ent md (dbDriver db)) ent' db'
            (performAll getMetadata esc (snd (snd (doDelete getMetadata esc st ent db))) calls))"
proof -
  note keep = grows_Some[OF performAll_grows]
  have frame:
    "selectStatements st k = Some s \<longrightarrow>
       selectStatements (performAll getMetadata esc st calls) k = Some s"
    "insertStatements st k = Some s \<longrightarrow>
       insertStatements (performAll getMetadata esc st calls) k = Some s"
    "updateStatements st k = Some s \<longrightarrow>
       updateStatements (performAll getMetadata esc st calls) k = Some s"
    "deleteStatements st k = Some s \<longrightarrow>
       deleteStatements (performAll getMetadata esc st calls) k = Some s"
    by (intro impI, erule keep)+
  have hit1:
    "getMetadata ent = Inr md \<and> selectStatements st (Type md) = Some s \<longrightarrow>
       doLoad getMetadata esc st ent db = loadWith s ent db st"
    by (intro impI, elim conjE, erule (1) doLoad_hit)
  have hit2:
    "getMetadata ent = Inr md \<and> insertStatements st (Type md) = Some s \<longrightarrow>
       doInsert getMetadata esc st ent db = insertWith s md ent db st"
    by (intro impI, elim conjE, erule (1) doInsert_hit)
  have hit3:
    "getMetadata ent = Inr md \<and> updateStatements st (Type md) = Some s \<longrightarrow>
       doUpdate getMetadata esc st ent db = updateWith s md ent db st"
    by (intro impI, elim conjE, erule (1) doUpdate_hit)
  have hit4:
    "getMetadata ent = Inr md \<and> deleteStatements st (Type md) = Some s \<longrightarrow>
       doDelete getMetadata esc st ent db = deleteWith s ent db st"
    by (intro impI, elim conjE, erule (1) doDelete_hit)
  have later1:
    "getMetadata ent = Inr md \<and> getMetadata ent' = Inr md' \<and> Type md' = Type md
        \<and> selectStatements st (Type md) = None \<longrightarrow>
      doLoad getMetadata esc
          (performAll getMetadata esc (snd (snd (doLoad getMetadata esc st ent db))) calls)
          ent' db'
        = loadWith (selectStatement esc ent md (dbDriver db)) ent' db'
            (performAll getMetadata esc (snd (snd (doLoad getMetadata esc st ent db))) calls)"
  proof (intro impI, elim conjE)
    assume a: "getMetadata ent = Inr md" "getMetadata ent' = Inr md'" "Type md' = Type md"
      "selectStatements st (Type md) = None"
    have "selectStatements (snd (snd (doLoad getMetadata esc st ent db))) (Type md)
            = Some (selectStatement esc ent md (dbDriver db))"
      using a(1) a(4) by (rule doLoad_miss)
    then have k: "selectStatements
            (performAll getMetadata esc (snd (snd (doLoad getMetadata esc st ent db))) calls)
            (Type md') = Some (selectStatement esc ent md (dbDriver db))"
      unfolding a(3) by (rule keep(1))
    show "doLoad getMetadata esc
          (performAll getMetadata esc (snd (snd (doLoad getMetadata esc st ent db))) calls)
          ent' db'
        = loadWith (selectStatement esc ent md (dbDriver db)) ent' db'
            (performAll getMetadata esc (snd (snd (doLoad getMetadata esc st ent db))) calls)"
      using a(2) k by (rule doLoad_hit)
  qed
  have later2:
    "getMetadata ent = Inr md \<and> getMetadata ent' = Inr md' \<and> Type md' = Type md
        \<and> insertStatements st (Type md) = None \<longrightarrow>
      doInsert getMetadata esc
          (performAll getMetadata esc (snd (snd (doInsert getMetadata esc st ent db))) calls)
          ent' db'
        = insertWith (insertStatement esc ent md (dbDriver db)) md' ent' db'
            (performAll getMetadata esc (snd (snd (doInsert getMetadata esc st ent db))) calls)"
  proof (intro impI, elim conjE)
    assume a: "getMetadata ent = Inr md" "getMetadata ent' = Inr md'" "Type md' = Type md"
      "insertStatements st (Type md) = None"
    have "insertStatements (snd (snd (doInsert getMetadata esc st ent db))) (Type md)
            = Some (insertStatement esc ent md (dbDriver db))"
      using a(1) a(4) by (rule doInsert_miss)
    then have k: "insertStatements
            (performAll getMetadata esc (snd (snd (doInsert getMetadata esc st ent db))) calls)
            (Type md') = Some (insertStatement esc ent md (dbDriver db))"
      unfolding a(3) by (rule keep(2))
    show "doInsert getMetadata esc
          (performAll getMetadata esc (snd (snd (doInsert getMetadata esc st ent db))) calls)
          ent' db'
        = insertWith (insertStatement esc ent md (dbDriver db)) md' ent' db'
            (performAll getMetadata esc (snd (snd (doInsert getMetadata esc st ent db))) calls)"
      using a(2) k by (rule doInsert_hit)
  qed
  have later3:
    "getMetadata ent = Inr md \<and> getMetadata ent' = Inr md' \<and> Type md' = Type md
        \<and> updateStatements st (Type md) = None \<longrightarrow>
      doUpdate getMetadata esc
          (performAll getMetadata esc (snd (snd (doUpdate getMetadata esc st ent db))) calls)
          ent' db'
        = updateWith (updateStatement esc ent md (dbDriver db)) md' ent' db'
            (performAll getMetadata esc (snd (snd (doUpdate getMetadata esc st ent db))) calls)"
  proof (intro impI, elim conjE)
    assume a: "getMetadata ent = Inr md" "getMetadata ent' = Inr md'" "Type md' = Type md"
      "updateStatements st (Type md) = None"
    have "updateStatements (snd (snd (doUpdate getMetadata esc st ent db))) (Type md)
            = Some (updateStatement esc ent md (dbDriver db))"
      using a(1) a(4) by (rule doUpdate_miss)
    then have k: "updateStatements
            (performAll getMetadata esc (snd (snd (doUpdate getMetadata esc st ent db))) calls)
            (Type md') = Some (updateStatement esc ent md (dbDriver db))"
      unfolding a(3) by (rule keep(3))
    show "doUpdate getMetadata esc
          (performAll getMetadata esc (snd (snd (doUpdate getMetadata esc st ent db))) calls)
          ent' db'
        = updateWith (updateStatement esc ent md (dbDriver db)) md' ent' db'
            (performAll getMetadata esc (snd (snd (doUpdate getMetadata esc st ent db))) calls)"
      using a(2) k by (rule doUpdate_hit)
  qed
  have later4:
    "getMetadata ent = Inr md \<and> getMetadata ent' = Inr md' \<and> Type md' = Type md
        \<and> deleteStatements st (Type md) = None \<longrightarrow>
      doDelete getMetadata esc
          (performAll getMetadata esc (snd (snd (doDelete getMetadata esc st ent db))) calls)
          ent' db'
        = deleteWith (deleteStatement esc ent md (dbDriver db)) ent' db'
            (performAll getMetadata esc (snd (snd (doDelete getMetadata esc st ent db))) calls)"
  proof (intro impI, elim conjE)
    assume a: "getMetadata ent = Inr md" "getMetadata ent' = Inr md'" "Type md' = Type md"
      "deleteStatements st (Type md) = None"
    have "deleteStatements (snd (snd (doDelete getMetadata esc st ent db))) (Type md)
            = Some (deleteStatement esc ent md (dbDriver db))"
      using a(1) a(4) by (rule doDelete_miss)
    then have k: "deleteStatements
            (performAll getMetadata esc (snd (snd (doDelete getMetadata esc st ent db))) calls)
            (Type md') = Some (deleteStatement esc ent md (dbDriver db))"
      unfolding a(3) by (rule keep(4))
    show "doDelete getMetadata esc
          (performAll getMetadata esc (snd (snd (doDelete getMetadata esc st ent db))) calls)
          ent' db'
        = deleteWith (deleteStatement esc ent md (dbDriver db)) ent' db'
            (performAll getMetadata esc (snd (snd (doDelete getMetadata esc st ent db))) calls)"
      using a(2) k by (rule doDelete_hit)
  qed
  show ?thesis
    by (intro conjI frame hit1 hit2 hit3 hit4 later1 later2 later3 later4)
qed

theorem statement_cache_keyed_by_type_witness:
  \<open>sampleMetadata False = Inr plainAccount
   \<and> selectStatements noStatements (Type plainAccount) = None
   \<and> dbDriver (echoBoolDB ''mysql'') = ''mysql''
   \<and> dbDriver (echoBoolDB ''postgres'') = ''postgres''
   \<and> fst (doLoad sampleMetadata hexEscaper
            (performAll sampleMetadata hexEscaper
               (snd (snd (doLoad sampleMetadata hexEscaper noStatements False
                            (echoBoolDB ''mysql''))))
               [CallLoad True (echoBoolDB ''postgres''),
                CallUpdate False (echoBoolDB ''postgres'')])
            False (echoBoolDB ''postgres''))
       = Some (DriverError ''SELECT `id`, `email` FROM `account` WHERE `id` = :id LIMIT 1'')
   \<and> selectStatement hexEscaper False plainAccount ''postgres''
       = ''SELECT "id", "email" FROM "account" WHERE "id" = :id LIMIT 1''\<close>
proof -
  have gm: "sampleMetadata False = Inr plainAccount"
    by (simp add: sampleMetadata_def)
  have none: "selectStatements noStatements (Type plainAccount) = None"
    by (simp add: noStatements_def)
  have dr: "dbDriver (echoBoolDB ''mysql'') = ''mysql''"
    "dbDriver (echoBoolDB ''postgres'') = ''postgres''"
    by (simp_all add: dbDriver_def echoBoolDB_def driverAlias_def)
  have my: \<open>selectStatement hexEscaper False plainAccount ''mysql''
       = ''SELECT `id`, `email` FROM `account` WHERE `id` = :id LIMIT 1''\<close>
    by (simp add: selectStatement_def sample_defs eval_defs)
  have pg: \<open>selectStatement hexEscaper False plainAccount ''postgres''
       = ''SELECT "id", "email" FROM "account" WHERE "id" = :id LIMIT 1''\<close>
    by (simp add: selectStatement_def sample_defs eval_defs)
  have echo: "fst (loadWith stmt False (echoBoolDB ''postgres'') st') = Some (DriverError stmt)"
    for stmt and st' :: "nat Statements"
    by (simp add: loadWith_def echoBoolDB_def)
  note whole = statement_cache_keyed_by_type[where getMetadata = sampleMetadata
      and esc = hexEscaper and st = noStatements and ent = False and md = plainAccount
      and ent' = False and md' = plainAccount and db = "echoBoolDB ''mysql''"
      and db' = "echoBoolDB ''postgres''"
      and calls = "[CallLoad True (echoBoolDB ''postgres''),
                    CallUpdate False (echoBoolDB ''postgres'')]"]
  note later = whole[THEN conjunct2, THEN conjunct2, THEN conjunct2, THEN conjunct2,
      THEN conjunct2, THEN conjunct2, THEN conjunct2, THEN conjunct2, THEN conjunct1]
  have pre: "sampleMetadata False = Inr plainAccount \<and> sampleMetadata False = Inr plainAccount
      \<and> Type plainAccount = Type plainAccount
      \<and> selectStatements noStatements (Type plainAccount) = None"
    using gm none by simp
  have res: \<open>fst (doLoad sampleMetadata hexEscaper
            (performAll sampleMetadata hexEscaper
               (snd (snd (doLoad sampleMetadata hexEscaper noStatements False
                            (echoBoolDB ''mysql''))))
               [CallLoad True (echoBoolDB ''postgres''),
                CallUpdate False (echoBoolDB ''postgres'')])
            False (echoBoolDB ''postgres''))
       = Some (DriverError ''SELECT `id`, `email` FROM `account` WHERE `id` = :id LIMIT 1'')\<close>
    unfolding later[THEN mp, OF pre] echo dr my by (rule refl)
  show ?thesis using gm none dr res pg by (intro conjI)
qed

end
